theory Spec2Isabelle
  imports Main
begin

section \<open>Strings of the runtime\<close>

text \<open>
  JavaScript strings are modelled as \<^typ>\<open>string\<close>.  \<open>startsWith\<close> is
  \<open>String.prototype.startsWith\<close>: a purely textual prefix test.  \<open>js_or\<close>
  is \<open>a || b\<close> on strings: the empty string is falsy.
\<close>

fun startsWith :: "string \<Rightarrow> string \<Rightarrow> bool" where
  "startsWith s [] = True"
| "startsWith [] (p # ps) = False"
| "startsWith (c # cs) (p # ps) = (c = p \<and> startsWith cs ps)"

definition js_or :: "string \<Rightarrow> string \<Rightarrow> string" where
  "js_or a b = (if a = [] then b else a)"

definition newline :: string where
  "newline = [CHR 0x0A]"

text \<open>
  An exit code is an integer, and a template literal prints an integer of that size in
  decimal.
\<close>

definition digit_chars :: string where
  "digit_chars = ''0123456789''"

fun nat_to_string :: "nat \<Rightarrow> string" where
  "nat_to_string n =
     (if n < 10 then [digit_chars ! n]
      else nat_to_string (n div 10) @ [digit_chars ! (n mod 10)])"

declare nat_to_string.simps [simp del]

definition number_to_string :: "int \<Rightarrow> string" where
  "number_to_string i =
     (if i < 0 then CHR ''-'' # nat_to_string (nat (- i)) else nat_to_string (nat i))"

section \<open>The POSIX path module\<close>

text \<open>
  The source calls \<open>path.resolve\<close>, \<open>path.normalize\<close>, \<open>path.join\<close> and
  \<open>path.dirname\<close>.  They are functions of the runtime; the definitions below follow
  the runtime's POSIX implementation.  \<open>split_slash\<close> cuts a string at every
  \<open>/\<close>; \<open>normalize_segments\<close> is the segment loop of the runtime's
  \<open>normalizeString\<close>: empty and \<open>.\<close> segments are dropped, \<open>..\<close> removes
  the last kept segment, and is itself kept only when \<open>allowAboveRoot\<close> holds
  and nothing is left to remove.
\<close>

fun split_slash :: "string \<Rightarrow> string list" where
  "split_slash [] = [[]]"
| "split_slash (c # cs) =
     (if c = CHR ''/'' then [] # split_slash cs
      else (case split_slash cs of
              [] \<Rightarrow> [[c]]
            | s # ss \<Rightarrow> (c # s) # ss))"

fun join_slash :: "string list \<Rightarrow> string" where
  "join_slash [] = []"
| "join_slash [s] = s"
| "join_slash (s # t # ss) = s @ ''/'' @ join_slash (t # ss)"

fun normalize_segments :: "bool \<Rightarrow> string list \<Rightarrow> string list \<Rightarrow> string list" where
  "normalize_segments allowAboveRoot res [] = rev res"
| "normalize_segments allowAboveRoot res (s # ss) =
     (if s = [] \<or> s = ''.'' then normalize_segments allowAboveRoot res ss
      else if s = ''..'' then
        (case res of
           [] \<Rightarrow> normalize_segments allowAboveRoot
                   (if allowAboveRoot then [''..''] else []) ss
         | t # ts \<Rightarrow>
             if t = ''..''
             then normalize_segments allowAboveRoot
                    (if allowAboveRoot then ''..'' # t # ts else t # ts) ss
             else normalize_segments allowAboveRoot ts ss)
      else normalize_segments allowAboveRoot (s # res) ss)"

definition normalizeString :: "string \<Rightarrow> bool \<Rightarrow> string" where
  "normalizeString p allowAboveRoot =
     join_slash (normalize_segments allowAboveRoot [] (split_slash p))"

definition isAbsolute :: "string \<Rightarrow> bool" where
  "isAbsolute p = (case p of [] \<Rightarrow> False | c # _ \<Rightarrow> c = CHR ''/'')"

text \<open>
  \<open>path.resolve\<close> walks its arguments from the right, then the process's current
  directory, until the collected path is absolute; empty arguments are skipped.
  \<open>resolve_loop\<close> receives the arguments already in that order.
\<close>

fun resolve_loop :: "string list \<Rightarrow> string \<Rightarrow> string \<times> bool" where
  "resolve_loop [] resolvedPath = (resolvedPath, False)"
| "resolve_loop (p # ps) resolvedPath =
     (if p = [] then resolve_loop ps resolvedPath
      else if isAbsolute p then (p @ ''/'' @ resolvedPath, True)
      else resolve_loop ps (p @ ''/'' @ resolvedPath))"

definition path_resolve :: "string \<Rightarrow> string list \<Rightarrow> string" where
  "path_resolve processCwd args =
     (case resolve_loop (rev args @ [processCwd]) [] of
        (resolvedPath, resolvedAbsolute) \<Rightarrow>
          (let r = normalizeString resolvedPath (\<not> resolvedAbsolute)
           in if resolvedAbsolute then ''/'' @ r
              else if r \<noteq> [] then r else ''.''))"

definition path_normalize :: "string \<Rightarrow> string" where
  "path_normalize p =
     (if p = [] then ''.''
      else
        (let isAbs = isAbsolute p;
             trailingSeparator = (last p = CHR ''/'');
             r = normalizeString p (\<not> isAbs)
         in if r = [] then (if isAbs then ''/'' else if trailingSeparator then ''./'' else ''.'')
            else (let r' = (if trailingSeparator then r @ ''/'' else r)
                  in if isAbs then ''/'' @ r' else r')))"

definition path_join :: "string list \<Rightarrow> string" where
  "path_join args =
     (let joined = join_slash (filter (\<lambda>a. a \<noteq> []) args)
      in if joined = [] then ''.'' else path_normalize joined)"

text \<open>
  \<open>path.dirname\<close> scans from the last character down to index 1 for the first
  \<open>/\<close> that follows a character other than \<open>/\<close>.
\<close>

fun dirname_scan :: "string \<Rightarrow> nat \<Rightarrow> bool \<Rightarrow> nat option" where
  "dirname_scan p 0 matchedSlash = None"
| "dirname_scan p (Suc i) matchedSlash =
     (if p ! Suc i = CHR ''/''
      then (if \<not> matchedSlash then Some (Suc i) else dirname_scan p i matchedSlash)
      else dirname_scan p i False)"

definition path_dirname :: "string \<Rightarrow> string" where
  "path_dirname p =
     (if p = [] then ''.''
      else
        (let hasRoot = isAbsolute p
         in case dirname_scan p (length p - 1) True of
              None \<Rightarrow> (if hasRoot then ''/'' else ''.'')
            | Some e \<Rightarrow> (if hasRoot \<and> e = 1 then ''//'' else take e p)))"

section \<open>Configuration and exceptions\<close>

text \<open>
  Both servers read \<open>baseDir\<close> once at start-up (\<open>process.argv[2] || process.cwd()\<close>).
  \<open>processCwd\<close> is \<open>process.cwd()\<close>, which \<open>path.resolve\<close> falls back to when
  \<open>baseDir\<close> is relative.  A thrown value is either an \<open>Error\<close> with its message
  or something that is not an \<open>Error\<close> instance.
\<close>

record config =
  baseDir :: string
  processCwd :: string

datatype exn = Error string | NotAnError

section \<open>The path confinement check\<close>

definition normalizePath :: "config \<Rightarrow> string \<Rightarrow> exn + string" where
  "normalizePath cfg filePath =
     (let normalizedPath = path_normalize (path_resolve (processCwd cfg) [baseDir cfg, filePath])
      in if \<not> startsWith normalizedPath (baseDir cfg)
         then Inl (Error (''Access denied: '' @ filePath @ '' is outside the base directory''))
         else Inr normalizedPath)"

text \<open>
  The working directory of \<open>run_command\<close>: \<open>workingDir\<close> defaults to the empty
  string, which is falsy and selects \<open>baseDir\<close> itself.
\<close>

definition command_cwd :: "config \<Rightarrow> string \<Rightarrow> string" where
  "command_cwd cfg workingDir =
     (if workingDir \<noteq> [] then path_resolve (processCwd cfg) [baseDir cfg, workingDir]
      else baseDir cfg)"

text \<open>
  The specification's notion of lying inside a root: the path is textually equal to the
  root, or has the root followed by the path separator as a prefix.
\<close>

definition spec_within_root :: "string \<Rightarrow> string \<Rightarrow> bool" where
  "spec_within_root root p = (p = root \<or> startsWith p (root @ ''/''))"


section \<open>The environment assembler\<close>

text \<open>
  \<open>process.env\<close> is a map from variable names to strings; the object spread copies
  it.  \<open>falsy\<close> is the test \<open>!env.PATH\<close>: it holds when the variable is
  undefined and also when it is the empty string.  \<open>homeDir\<close> is the value of
  \<open>os.homedir()\<close>.
\<close>

type_synonym env = "string \<rightharpoonup> string"

definition falsy :: "string option \<Rightarrow> bool" where
  "falsy v = (case v of None \<Rightarrow> True | Some s \<Rightarrow> s = [])"

definition synthesized_PATH :: "string \<Rightarrow> string" where
  "synthesized_PATH homeDir =
     ''/usr/local/bin:/usr/bin:/bin:/usr/sbin:/sbin''
     @ '':'' @ path_join [homeDir, ''.local/bin'']
     @ '':'' @ path_join [homeDir, ''bin'']
     @ '':'' @ path_join [homeDir, ''.nvm/current/bin'']
     @ '':'' @ path_join [homeDir, ''.bun/bin'']
     @ '':'' @ path_join [homeDir, ''.deno/bin'']
     @ '':'' @ path_join [homeDir, ''.cargo/bin'']"

definition getShellEnv :: "string \<Rightarrow> env \<Rightarrow> env" where
  "getShellEnv homeDir processEnv =
     (let env = processEnv
      in if falsy (env ''PATH'') then env(''PATH'' \<mapsto> synthesized_PATH homeDir) else env)"

definition quoted :: "string \<Rightarrow> string" where
  "quoted s = [CHR 0x27] @ s @ [CHR 0x27]"

definition get_env :: "string \<Rightarrow> env \<Rightarrow> string \<Rightarrow> string" where
  "get_env homeDir processEnv name =
     (let env = getShellEnv homeDir processEnv
      in case env name of
           None \<Rightarrow> ''Environment variable '' @ quoted name @ '' is not set''
         | Some v \<Rightarrow> v)"

section \<open>The process execution core\<close>

text \<open>
  The body of the promise in \<open>run_command\<close> registers handlers and returns; what
  happens afterwards is decided by the events the runtime delivers.  An event is a chunk
  of output, the expiry of the timer, the child's \<open>close\<close> (with its exit code,
  \<open>null\<close> when a signal ended it) or the child's \<open>error\<close> (with the message
  of the error).

  The state holds the two buffers, whether \<open>timeoutId\<close> is non-null, whether the
  runtime still has the timer pending, whether \<open>process.kill()\<close> was called, and
  every argument \<open>resolve\<close> was called with, in order.  A promise keeps the first
  resolution and ignores the later ones: \<open>promise_value\<close>.
\<close>

datatype child_event =
    StdoutData string
  | StderrData string
  | TimerFired
  | Close "int option"
  | SpawnError string

record exec_state =
  stdout :: string
  stderr :: string
  timeoutId :: bool
  timerPending :: bool
  killed :: bool
  resolved :: "string list"

definition resolve :: "string \<Rightarrow> exec_state \<Rightarrow> exec_state" where
  "resolve text st = st\<lparr>resolved := resolved st @ [text]\<rparr>"

definition promise_value :: "exec_state \<Rightarrow> string option" where
  "promise_value st = (case resolved st of [] \<Rightarrow> None | r # _ \<Rightarrow> Some r)"

definition clearTimeout :: "exec_state \<Rightarrow> exec_state" where
  "clearTimeout st = st\<lparr>timerPending := False\<rparr>"

definition clear_if_set :: "exec_state \<Rightarrow> exec_state" where
  "clear_if_set st = (if timeoutId st then clearTimeout st else st)"

text \<open>
  A timeout is a number of the runtime.  The code replaces a missing one by 30000,
  compares it with 0 and prints it in a template literal.  The number type is left open
  (\<open>'n\<close>: the doubles of the runtime, fractions and infinities included, or the
  integers), and the runtime's printing of a number, \<open>numberText\<close>, is a parameter
  of everything that prints a timeout.
\<close>

definition effective_timeout :: "'n::numeral option \<Rightarrow> 'n" where
  "effective_timeout t = (case t of None \<Rightarrow> 30000 | Some ms \<Rightarrow> ms)"

definition spawned_state :: "'n::{zero,ord} \<Rightarrow> exec_state" where
  "spawned_state timeout =
     \<lparr>stdout = [], stderr = [], timeoutId = (timeout > 0), timerPending = (timeout > 0),
      killed = False, resolved = []\<rparr>"

definition render_code :: "int option \<Rightarrow> string" where
  "render_code code = (case code of None \<Rightarrow> ''null'' | Some c \<Rightarrow> number_to_string c)"

definition timeout_message :: "('n \<Rightarrow> string) \<Rightarrow> 'n \<Rightarrow> string" where
  "timeout_message numberText timeout =
     ''Command timed out after '' @ numberText timeout @ ''ms''"

definition success_message :: "string \<Rightarrow> string" where
  "success_message out = js_or out ''Command executed successfully (no output)''"

definition failure_message :: "int option \<Rightarrow> string \<Rightarrow> string \<Rightarrow> string" where
  "failure_message code out err =
     (let errorOutput = js_or err (js_or out ''No error output'')
      in ''Command failed with exit code '' @ render_code code @ '':'' @ newline @ errorOutput)"

definition on_close :: "int option \<Rightarrow> exec_state \<Rightarrow> exec_state" where
  "on_close code st =
     (let st' = clear_if_set st
      in if code = Some 0 then resolve (success_message (stdout st')) st'
         else resolve (failure_message code (stdout st') (stderr st')) st')"

definition on_error :: "string \<Rightarrow> exec_state \<Rightarrow> exec_state" where
  "on_error msg st = resolve (''Failed to execute command: '' @ msg) (clear_if_set st)"

definition on_timer :: "('n \<Rightarrow> string) \<Rightarrow> 'n \<Rightarrow> exec_state \<Rightarrow> exec_state" where
  "on_timer numberText timeout st =
     (if timerPending st
      then resolve (timeout_message numberText timeout)
             (st\<lparr>timerPending := False, killed := True\<rparr>)
      else st)"

fun handle_event ::
  "('n \<Rightarrow> string) \<Rightarrow> 'n \<Rightarrow> exec_state \<Rightarrow> child_event \<Rightarrow> exec_state" where
  "handle_event numberText timeout st (StdoutData d) = st\<lparr>stdout := stdout st @ d\<rparr>"
| "handle_event numberText timeout st (StderrData d) = st\<lparr>stderr := stderr st @ d\<rparr>"
| "handle_event numberText timeout st TimerFired = on_timer numberText timeout st"
| "handle_event numberText timeout st (Close code) = on_close code st"
| "handle_event numberText timeout st (SpawnError msg) = on_error msg st"

definition run_events ::
  "('n::{zero,ord} \<Rightarrow> string) \<Rightarrow> 'n \<Rightarrow> child_event list \<Rightarrow> exec_state" where
  "run_events numberText timeout events =
     foldl (handle_event numberText timeout) (spawned_state timeout) events"

fun stdout_of :: "child_event list \<Rightarrow> string" where
  "stdout_of [] = []"
| "stdout_of (StdoutData d # es) = d @ stdout_of es"
| "stdout_of (e # es) = stdout_of es"

fun stderr_of :: "child_event list \<Rightarrow> string" where
  "stderr_of [] = []"
| "stderr_of (StderrData d # es) = d @ stderr_of es"
| "stderr_of (e # es) = stderr_of es"

text \<open>
  The events that end an invocation: the child's \<open>close\<close>, the child's
  \<open>error\<close>, and the expiry of the timer, which exists only for a positive timeout.
\<close>

fun is_terminal :: "'n::{zero,ord} \<Rightarrow> child_event \<Rightarrow> bool" where
  "is_terminal timeout (Close code) = True"
| "is_terminal timeout (SpawnError msg) = True"
| "is_terminal timeout TimerFired = (timeout > 0)"
| "is_terminal timeout e = False"

text \<open>
  The timer is consistent with a timeout while it is pending exactly for a positive
  timeout, or the promise is resolved already.
\<close>

definition timer_consistent :: "'n::{zero,ord} \<Rightarrow> exec_state \<Rightarrow> bool" where
  "timer_consistent t st = (promise_value st \<noteq> None \<or> timerPending st = (t > 0))"

section \<open>The file system\<close>

text \<open>
  The file system is a map from absolute, normalized paths to nodes: a regular file with
  its bytes, or a directory.  Other kinds of node (devices, pipes, sockets), permissions
  and symbolic links are not part of it.  The synchronous calls of the \<open>fs\<close>
  module either return or throw an \<open>Error\<close> whose message starts with the error
  code.

  The source writes and reads text with the encoding \<open>utf8\<close>.  The two
  directions of that encoding belong to the runtime and are parameters: \<open>to_utf8\<close>
  turns a string into the bytes that are stored, \<open>from_utf8\<close> turns stored bytes
  into the string that is read.  The runtime's encoding does not preserve every string:
  an unpaired surrogate is written as the replacement character.
\<close>

type_synonym bytes = "char list"

record codec =
  to_utf8 :: "string \<Rightarrow> bytes"
  from_utf8 :: "bytes \<Rightarrow> string"

datatype node = File bytes | Dir

type_synonym filesystem = "string \<rightharpoonup> node"

datatype errno = ENOENT | EISDIR | ENOTDIR | EEXIST

fun errno_text :: "errno \<Rightarrow> string" where
  "errno_text ENOENT = ''ENOENT: no such file or directory''"
| "errno_text EISDIR = ''EISDIR: illegal operation on a directory''"
| "errno_text ENOTDIR = ''ENOTDIR: not a directory''"
| "errno_text EEXIST = ''EEXIST: file already exists''"

definition system_error :: "errno \<Rightarrow> string \<Rightarrow> string \<Rightarrow> exn" where
  "system_error e syscall p = Error (errno_text e @ '', '' @ syscall @ '' '' @ quoted p)"

definition existsSync :: "filesystem \<Rightarrow> string \<Rightarrow> bool" where
  "existsSync fs p = (fs p \<noteq> None)"



definition readFileSync :: "codec \<Rightarrow> filesystem \<Rightarrow> string \<Rightarrow> exn + string" where
  "readFileSync enc fs p =
     (case fs p of
        None \<Rightarrow> Inl (system_error ENOENT ''open'' p)
      | Some Dir \<Rightarrow> Inl (system_error EISDIR ''read'' p)
      | Some (File b) \<Rightarrow> Inr (from_utf8 enc b))"

text \<open>
  Writing replaces the bytes of an existing regular file; it creates a new file only
  inside an existing directory, and fails on a directory.
\<close>

definition writeFileSync ::
  "codec \<Rightarrow> filesystem \<Rightarrow> string \<Rightarrow> string \<Rightarrow> exn + filesystem" where
  "writeFileSync enc fs p content =
     (case fs p of
        Some Dir \<Rightarrow> Inl (system_error EISDIR ''open'' p)
      | Some (File old) \<Rightarrow> Inr (fs(p \<mapsto> File (to_utf8 enc content)))
      | None \<Rightarrow>
          (case fs (path_dirname p) of
             Some Dir \<Rightarrow> Inr (fs(p \<mapsto> File (to_utf8 enc content)))
           | Some (File b) \<Rightarrow> Inl (system_error ENOTDIR ''open'' p)
           | None \<Rightarrow> Inl (system_error ENOENT ''open'' p)))"



section \<open>The file tools\<close>

text \<open>
  Every tool body is a \<open>try\<close> block whose \<open>catch\<close> turns the thrown value into
  the returned text.  A tool returns its text and the file system it leaves behind.
\<close>

definition caught :: "string \<Rightarrow> string \<Rightarrow> exn \<Rightarrow> string" where
  "caught prefix unknown e = (case e of Error m \<Rightarrow> prefix @ m | NotAnError \<Rightarrow> unknown)"




text \<open>
  \<open>createPatch\<close> belongs to the diff library; it is a parameter of \<open>edit_file\<close>,
  called with the file name, the old and the new content and the two headers.
\<close>

type_synonym patcher = "string \<Rightarrow> string \<Rightarrow> string \<Rightarrow> string \<Rightarrow> string \<Rightarrow> string"

definition edited_message :: "string \<Rightarrow> string \<Rightarrow> string" where
  "edited_message filePath diff =
     ''File '' @ quoted filePath @ '' has been edited successfully.''
     @ newline @ newline @ ''Changes:'' @ newline @ diff"

definition edit_file ::
  "codec \<Rightarrow> patcher \<Rightarrow> config \<Rightarrow> filesystem \<Rightarrow> string \<Rightarrow> string
     \<Rightarrow> string \<times> filesystem" where
  "edit_file enc createPatch cfg fs filePath newContent =
     (let handler = caught ''Error editing file: ''
                      ''An unknown error occurred while editing the file''
      in case normalizePath cfg filePath of
           Inl e \<Rightarrow> (handler e, fs)
         | Inr normalizedPath \<Rightarrow>
             if \<not> existsSync fs normalizedPath
             then (''Error: File '' @ quoted filePath @ '' does not exist'', fs)
             else (case readFileSync enc fs normalizedPath of
                     Inl e \<Rightarrow> (handler e, fs)
                   | Inr oldContent \<Rightarrow>
                       (let diff = createPatch filePath oldContent newContent ''Old'' ''New''
                        in case writeFileSync enc fs normalizedPath newContent of
                             Inl e \<Rightarrow> (handler e, fs)
                           | Inr fs' \<Rightarrow> (edited_message filePath diff, fs'))))"

section \<open>The command tool\<close>

text \<open>
  \<open>spawn\<close> is called inside the promise body with no \<open>try\<close> around it.  The
  runtime validates its arguments and throws for an empty command; of the errors of
  the operating system it reports some through the child's \<open>error\<close> event and
  throws the others, among them the error for a working directory that is not a
  directory.  Whatever \<open>spawn\<close> throws rejects the promise, so the call of the tool
  ends with that exception.
\<close>

definition spawn :: "filesystem \<Rightarrow> string \<Rightarrow> string \<Rightarrow> exn + unit" where
  "spawn fs command cwd =
     (if command = []
      then Inl (Error (''The argument '' @ quoted ''file'' @ '' cannot be empty. Received ''
                       @ quoted []))
      else (case fs cwd of
              Some (File b) \<Rightarrow> Inl (Error ''spawn ENOTDIR'')
            | _ \<Rightarrow> Inr ()))"

text \<open>
  \<open>run_command\<close> checks the working directory, then spawns the command and waits for
  the promise.  \<open>events\<close> is everything the runtime delivers for the spawned child.
  A call returns a text, ends with an exception, or stays pending for ever because the
  promise is never resolved.  The outcome also records the child that was spawned, if
  any, and whether \<open>process.kill()\<close> was called on it.
\<close>

datatype call_result = Returns string | Throws exn | Pending

record spawn_call =
  spawn_command :: string
  spawn_cwd :: string
  spawn_env :: env

record run_outcome =
  result :: call_result
  spawned :: "spawn_call option"
  child_killed :: bool

definition promise_result :: "exec_state \<Rightarrow> call_result" where
  "promise_result st = (case promise_value st of None \<Rightarrow> Pending | Some r \<Rightarrow> Returns r)"

definition default_workingDir :: "string option \<Rightarrow> string" where
  "default_workingDir workingDirArg = (case workingDirArg of None \<Rightarrow> [] | Some w \<Rightarrow> w)"

definition run_command ::
  "('n::{zero,ord,numeral} \<Rightarrow> string) \<Rightarrow> config \<Rightarrow> filesystem \<Rightarrow> string \<Rightarrow> env
     \<Rightarrow> child_event list \<Rightarrow> string \<Rightarrow> string option \<Rightarrow> 'n option \<Rightarrow> run_outcome" where
  "run_command numberText cfg fs homeDir processEnv events command workingDirArg timeoutArg =
     (let workingDir = default_workingDir workingDirArg;
          timeout = effective_timeout timeoutArg;
          cwd = command_cwd cfg workingDir
      in if \<not> startsWith cwd (baseDir cfg)
         then \<lparr>result = Returns ''Error: Working directory must be within the base directory'',
               spawned = None, child_killed = False\<rparr>
         else if \<not> existsSync fs cwd
         then \<lparr>result = Returns (''Error: Working directory '' @ quoted workingDir
                                   @ '' does not exist''),
               spawned = None, child_killed = False\<rparr>
         else (case spawn fs command cwd of
                 Inl e \<Rightarrow> \<lparr>result = Throws e, spawned = None, child_killed = False\<rparr>
               | Inr child \<Rightarrow>
                   (let final = run_events numberText timeout events
                    in \<lparr>result = promise_result final,
                        spawned = Some \<lparr>spawn_command = command, spawn_cwd = cwd,
                                         spawn_env = getShellEnv homeDir processEnv\<rparr>,
                        child_killed = killed final\<rparr>)))"

text \<open>
  The invocations that get as far as a running child: both tests on the working
  directory pass and \<open>spawn\<close> returns.
\<close>

definition child_started :: "config \<Rightarrow> filesystem \<Rightarrow> string \<Rightarrow> string option \<Rightarrow> bool" where
  "child_started cfg fs command workingDirArg =
     (startsWith (command_cwd cfg (default_workingDir workingDirArg)) (baseDir cfg) \<and>
      existsSync fs (command_cwd cfg (default_workingDir workingDirArg)) \<and>
      spawn fs command (command_cwd cfg (default_workingDir workingDirArg)) = Inr ())"

text \<open>
  The specification's requirement on the working directory: it exists as a directory.
\<close>

definition spec_is_directory :: "filesystem \<Rightarrow> string \<Rightarrow> bool" where
  "spec_is_directory fs p = (fs p = Some Dir)"

section \<open>Example inputs\<close>

definition app_config :: config where
  "app_config = \<lparr>baseDir = ''/srv/app'', processCwd = ''/srv/app''\<rparr>"

text \<open>
  An encoding that keeps the characters below 128 and writes a question mark for every
  other one: like the runtime's, it preserves some strings and not others.
\<close>

definition seven_bit :: codec where
  "seven_bit =
     \<lparr>to_utf8 = map (\<lambda>c. if (of_char c :: nat) < 128 then c else CHR ''?''),
      from_utf8 = (\<lambda>b. b)\<rparr>"

definition app_fs :: filesystem where
  "app_fs = [''/'' \<mapsto> Dir, ''/srv'' \<mapsto> Dir, ''/srv/app'' \<mapsto> Dir,
             ''/srv/app-data'' \<mapsto> Dir,
             ''/srv/app/docs'' \<mapsto> Dir,
             ''/srv/app/notes.txt'' \<mapsto> File ''remember'']"

definition plain_patch :: patcher where
  "plain_patch name oldText newText oldHeader newHeader =
     ''--- '' @ name @ '' '' @ oldHeader @ newline @ ''-'' @ oldText @ newline
     @ ''+++ '' @ name @ '' '' @ newHeader @ newline @ ''+'' @ newText"

section \<open>Properties of the execution core\<close>

lemma promise_value_resolve:
  "promise_value (resolve text st) =
     (case promise_value st of None \<Rightarrow> Some text | Some r \<Rightarrow> Some r)"
  by (cases "resolved st") (simp_all add: promise_value_def resolve_def)

lemma promise_value_clear_if_set [simp]:
  "promise_value (clear_if_set st) = promise_value st"
  by (simp add: promise_value_def clear_if_set_def clearTimeout_def)

lemma promise_value_handle_event_settled:
  "promise_value st = Some r \<Longrightarrow> promise_value (handle_event nt t st e) = Some r"
  by (cases e)
     (simp_all add: promise_value_resolve on_close_def on_error_def on_timer_def Let_def,
      simp_all add: promise_value_def)

lemma promise_value_foldl_settled:
  "promise_value st = Some r \<Longrightarrow> promise_value (foldl (handle_event nt t) st es) = Some r"
  by (induction es arbitrary: st) (simp_all add: promise_value_handle_event_settled)

lemma killed_handle_event:
  "killed st \<Longrightarrow> killed (handle_event nt t st e)"
  by (cases e)
     (simp_all add: on_close_def on_error_def on_timer_def Let_def resolve_def
        clear_if_set_def clearTimeout_def)

lemma killed_foldl:
  "killed st \<Longrightarrow> killed (foldl (handle_event nt t) st es)"
  by (induction es arbitrary: st) (simp_all add: killed_handle_event)

text \<open>
  Before the first terminal event only the two buffers change.
\<close>

lemma foldl_quiet:
  "\<forall>e\<in>set es. \<not> is_terminal t e \<Longrightarrow> timerPending st = (0 < t) \<Longrightarrow>
     foldl (handle_event nt t) st es =
       st\<lparr>stdout := stdout st @ stdout_of es, stderr := stderr st @ stderr_of es\<rparr>"
proof (induction es arbitrary: st)
  case Nil
  show ?case by simp
next
  case (Cons e es)
  then show ?case by (cases e) (simp_all add: on_timer_def)
qed

lemma run_events_quiet:
  "\<forall>e\<in>set es. \<not> is_terminal t e \<Longrightarrow>
     run_events nt t es =
       \<lparr>stdout = stdout_of es, stderr = stderr_of es, timeoutId = (0 < t),
        timerPending = (0 < t), killed = False, resolved = []\<rparr>"
  by (simp add: run_events_def foldl_quiet spawned_state_def)

lemma run_events_append:
  "run_events nt t (es @ e # later) =
     foldl (handle_event nt t) (handle_event nt t (run_events nt t es) e) later"
  by (simp add: run_events_def)

lemma close_first_result:
  assumes "\<forall>e\<in>set es. \<not> is_terminal t e"
  shows "promise_value (run_events nt t (es @ Close code # later)) =
           Some (if code = Some 0 then success_message (stdout_of es)
                 else failure_message code (stdout_of es) (stderr_of es))"
proof -
  have "promise_value (handle_event nt t (run_events nt t es) (Close code)) =
          Some (if code = Some 0 then success_message (stdout_of es)
                else failure_message code (stdout_of es) (stderr_of es))"
    using assms
    by (simp add: run_events_quiet on_close_def Let_def resolve_def
          clear_if_set_def clearTimeout_def promise_value_def)
  then show ?thesis
    unfolding run_events_append by (rule promise_value_foldl_settled)
qed

lemma timer_first_result:
  assumes "\<forall>e\<in>set es. \<not> is_terminal t e" and "0 < t"
  shows "promise_value (run_events nt t (es @ TimerFired # later)) =
           Some (timeout_message nt t)"
    and "killed (run_events nt t (es @ TimerFired # later))"
proof -
  let ?st = "handle_event nt t (run_events nt t es) TimerFired"
  have p: "promise_value ?st = Some (timeout_message nt t)" and k: "killed ?st"
    using assms
    by (simp_all add: run_events_quiet on_timer_def promise_value_def resolve_def)
  show "promise_value (run_events nt t (es @ TimerFired # later)) =
          Some (timeout_message nt t)"
    unfolding run_events_append using p by (rule promise_value_foldl_settled)
  show "killed (run_events nt t (es @ TimerFired # later))"
    unfolding run_events_append using k by (rule killed_foldl)
qed

lemma error_first_result:
  assumes "\<forall>e\<in>set es. \<not> is_terminal t e"
  shows "promise_value (run_events nt t (es @ SpawnError msg # later)) =
           Some (''Failed to execute command: '' @ msg)"
proof -
  have "promise_value (handle_event nt t (run_events nt t es) (SpawnError msg)) =
          Some (''Failed to execute command: '' @ msg)"
    using assms
    by (simp add: run_events_quiet on_error_def resolve_def clear_if_set_def
          clearTimeout_def promise_value_def)
  then show ?thesis
    unfolding run_events_append by (rule promise_value_foldl_settled)
qed

lemma terminal_settles:
  "timer_consistent t st \<Longrightarrow> is_terminal t e \<Longrightarrow>
     promise_value (handle_event nt t st e) \<noteq> None"
  by (cases e)
     (auto simp add: timer_consistent_def promise_value_resolve on_close_def on_error_def
        on_timer_def Let_def split: option.splits)

lemma timer_consistent_step:
  "timer_consistent t st \<Longrightarrow> timer_consistent t (handle_event nt t st e)"
proof (cases "is_terminal t e")
  case True
  assume "timer_consistent t st"
  then have "promise_value (handle_event nt t st e) \<noteq> None"
    using True by (rule terminal_settles)
  then show ?thesis by (simp add: timer_consistent_def)
next
  case False
  assume "timer_consistent t st"
  then show ?thesis using False
    by (cases e)
       (auto simp add: timer_consistent_def promise_value_def on_timer_def resolve_def
          split: list.splits)
qed

lemma terminal_in_trace_settles:
  "timer_consistent t st \<Longrightarrow> \<exists>e\<in>set es. is_terminal t e \<Longrightarrow>
     promise_value (foldl (handle_event nt t) st es) \<noteq> None"
proof (induction es arbitrary: st)
  case Nil
  then show ?case by simp
next
  case (Cons e es)
  show ?case
  proof (cases "is_terminal t e")
    case True
    with Cons.prems(1) have "promise_value (handle_event nt t st e) \<noteq> None"
      by (rule terminal_settles)
    then obtain r where "promise_value (handle_event nt t st e) = Some r" by blast
    then have "promise_value (foldl (handle_event nt t) (handle_event nt t st e) es) = Some r"
      by (rule promise_value_foldl_settled)
    then show ?thesis by simp
  next
    case False
    with Cons.prems(2) have "\<exists>e\<in>set es. is_terminal t e" by simp
    moreover have "timer_consistent t (handle_event nt t st e)"
      using Cons.prems(1) by (rule timer_consistent_step)
    ultimately show ?thesis using Cons.IH by simp
  qed
qed

lemma timer_consistent_spawned: "timer_consistent t (spawned_state t)"
  by (simp add: timer_consistent_def spawned_state_def)

lemma terminal_gives_value:
  assumes "\<exists>e\<in>set es. is_terminal t e"
  shows "\<exists>r. promise_value (run_events nt t es) = Some r \<and>
             (\<forall>later. promise_value (run_events nt t (es @ later)) = Some r)"
proof -
  from timer_consistent_spawned assms have "promise_value (run_events nt t es) \<noteq> None"
    unfolding run_events_def by (rule terminal_in_trace_settles)
  then obtain r where r: "promise_value (run_events nt t es) = Some r" by blast
  have "promise_value (run_events nt t (es @ later)) = Some r" for later
    using promise_value_foldl_settled [of "run_events nt t es" r nt t later] r
    by (simp add: run_events_def)
  with r show ?thesis by blast
qed

text \<open>
  What \<open>run_command\<close> yields once the child has been started.
\<close>

lemma run_command_started:
  assumes "child_started cfg fs command wd"
  shows "result (run_command nt cfg fs homeDir env es command wd targ) =
           promise_result (run_events nt (effective_timeout targ) es)"
    and "child_killed (run_command nt cfg fs homeDir env es command wd targ) =
           killed (run_events nt (effective_timeout targ) es)"
    and "map_option spawn_cwd (spawned (run_command nt cfg fs homeDir env es command wd targ)) =
           Some (command_cwd cfg (default_workingDir wd))"
  using assms by (simp_all add: child_started_def run_command_def Let_def)

lemmas render_simps =
  timeout_message_def success_message_def failure_message_def render_code_def
  number_to_string_def nat_to_string.simps digit_chars_def js_or_def newline_def

lemmas exec_simps =
  run_events_def spawned_state_def on_timer_def on_close_def on_error_def resolve_def
  promise_value_def promise_result_def clear_if_set_def clearTimeout_def

lemmas path_simps =
  normalizePath_def command_cwd_def path_normalize_def path_resolve_def normalizeString_def
  isAbsolute_def path_dirname_def path_join_def


lemmas command_simps =
  run_command_def child_started_def spawn_def default_workingDir_def effective_timeout_def
  existsSync_def quoted_def

lemma app_started:
  "child_started app_config app_fs ''make'' None"
  by (simp add: command_simps app_config_def app_fs_def path_simps)

text \<open>
  C2, as the claim states it, fails.  With the timeout disabled and a child that only
  writes output and never closes, the promise is never resolved and the call produces no
  result.  With an empty command, \<open>spawn\<close> throws inside the promise body and the
  call ends with that exception.
\<close>

theorem run_command_pending_or_throws:
  "result (run_command number_to_string app_config app_fs ''/home/u'' Map.empty
             [StdoutData ''tick'', StdoutData ''tick''] ''make'' None (Some 0)) = Pending \<and>
   result (run_command number_to_string app_config app_fs ''/home/u'' Map.empty
             [Close (Some 0)] [] None None) =
     Throws (Error (''The argument '' @ quoted ''file'' @ '' cannot be empty. Received ''
                    @ quoted []))"
  by (simp add: command_simps app_config_def app_fs_def path_simps exec_simps)

text \<open>
  C2, amended.  For every invocation in which the child is started: the call never ends
  with an exception; if one of the events is a \<open>close\<close>, an \<open>error\<close> or the
  expiry of an armed timer, the call returns one text, and it is the same text whatever
  events follow, so only the first resolution is observed; if there is no such event the
  call stays pending; an \<open>error\<close> that comes first gives the failure notice with its
  message.
\<close>

theorem run_command_resolves_once:
  "child_started cfg fs command wd \<longrightarrow>
     (\<forall>x. result (run_command nt cfg fs homeDir env es command wd targ) \<noteq> Throws x) \<and>
     ((\<exists>e\<in>set es. is_terminal (effective_timeout targ) e) \<longrightarrow>
        (\<exists>r. result (run_command nt cfg fs homeDir env es command wd targ) = Returns r \<and>
             (\<forall>later. result (run_command nt cfg fs homeDir env (es @ later) command wd targ)
                        = Returns r))) \<and>
     ((\<forall>e\<in>set es. \<not> is_terminal (effective_timeout targ) e) \<longrightarrow>
        result (run_command nt cfg fs homeDir env es command wd targ) = Pending \<and>
        result (run_command nt cfg fs homeDir env (es @ SpawnError msg # later2) command wd targ)
          = Returns (''Failed to execute command: '' @ msg))"
proof (intro impI conjI allI)
  assume started: "child_started cfg fs command wd"
  show "result (run_command nt cfg fs homeDir env es command wd targ) \<noteq> Throws x" for x
    using started by (simp add: run_command_started promise_result_def split: option.splits)
  {
    assume "\<exists>e\<in>set es. is_terminal (effective_timeout targ) e"
    then obtain r
      where "promise_value (run_events nt (effective_timeout targ) es) = Some r"
        and "\<And>later. promise_value (run_events nt (effective_timeout targ) (es @ later)) = Some r"
      using terminal_gives_value [of es "effective_timeout targ" nt] by blast
    then show "\<exists>r. result (run_command nt cfg fs homeDir env es command wd targ) = Returns r \<and>
             (\<forall>later. result (run_command nt cfg fs homeDir env (es @ later) command wd targ)
                        = Returns r)"
      using started by (simp add: run_command_started promise_result_def)
  }
  {
    assume quiet: "\<forall>e\<in>set es. \<not> is_terminal (effective_timeout targ) e"
    then show "result (run_command nt cfg fs homeDir env es command wd targ) = Pending"
      using started
      by (simp add: run_command_started promise_result_def run_events_quiet promise_value_def)
    show "result (run_command nt cfg fs homeDir env (es @ SpawnError msg # later2) command wd targ)
          = Returns (''Failed to execute command: '' @ msg)"
      using started quiet
      by (simp add: run_command_started promise_result_def error_first_result)
  }
qed

theorem run_command_resolves_once_witness:
  "child_started app_config app_fs ''make'' None \<and>
   is_terminal (effective_timeout (Some (100::int))) TimerFired \<and>
   result (run_command number_to_string app_config app_fs ''/home/u'' Map.empty
             [StdoutData ''partial'', TimerFired] ''make'' None (Some 100)) =
     Returns ''Command timed out after 100ms'' \<and>
   result (run_command number_to_string app_config app_fs ''/home/u'' Map.empty
             ([StdoutData ''partial'', TimerFired] @ [Close None]) ''make'' None (Some 100)) =
     Returns ''Command timed out after 100ms'' \<and>
   \<not> is_terminal (effective_timeout (Some (100::int))) (StdoutData ''partial'') \<and>
   result (run_command number_to_string app_config app_fs ''/home/u'' Map.empty
             [StdoutData ''partial''] ''make'' None (Some 100)) = Pending \<and>
   result (run_command number_to_string app_config app_fs ''/home/u'' Map.empty
             ([StdoutData ''partial''] @ SpawnError ''spawn ENOMEM'' # [Close (Some (- 12))])
             ''make'' None (Some 100)) =
     Returns ''Failed to execute command: spawn ENOMEM''"
proof -
  note first = run_command_resolves_once
    [of app_config app_fs "''make''" None number_to_string "''/home/u''" Map.empty
        "[StdoutData ''partial'', TimerFired]" "Some 100"]
  note second = run_command_resolves_once
    [of app_config app_fs "''make''" None number_to_string "''/home/u''" Map.empty
        "[StdoutData ''partial'']" "Some 100" "''spawn ENOMEM''" "[Close (Some (- 12))]"]
  have t: "\<exists>e\<in>set [StdoutData ''partial'', TimerFired].
             is_terminal (effective_timeout (Some (100::int))) e"
    by (simp add: effective_timeout_def)
  have q: "\<forall>e\<in>set [StdoutData ''partial''].
             \<not> is_terminal (effective_timeout (Some (100::int))) e"
    by simp
  from first app_started t obtain r
    where r: "result (run_command number_to_string app_config app_fs ''/home/u'' Map.empty
                [StdoutData ''partial'', TimerFired] ''make'' None (Some 100)) = Returns r"
      and l: "\<And>later. result (run_command number_to_string app_config app_fs ''/home/u''
                Map.empty ([StdoutData ''partial'', TimerFired] @ later) ''make'' None
                (Some 100)) = Returns r"
    by blast
  have "result (run_command number_to_string app_config app_fs ''/home/u'' Map.empty
                [StdoutData ''partial'', TimerFired] ''make'' None (Some 100)) =
          Returns ''Command timed out after 100ms''"
    by (simp add: command_simps app_config_def app_fs_def path_simps exec_simps render_simps)
  with r have "r = ''Command timed out after 100ms''" by simp
  with r l [of "[Close None]"] second app_started q show ?thesis
    by (simp add: effective_timeout_def)
qed

text \<open>
  C3, as the claim states it, fails: a child that closes with exit code 0 after the
  timer has fired leaves the timeout notice as the result, not its standard output.
\<close>

theorem close_after_timeout:
  "result (run_command number_to_string app_config app_fs ''/home/u'' Map.empty
             [StdoutData ''all done'', TimerFired, Close (Some 0)] ''make'' None (Some 100)) =
     Returns ''Command timed out after 100ms''"
  by (simp add: command_simps app_config_def app_fs_def path_simps exec_simps render_simps)

text \<open>
  C3, amended.  For a child that was started and whose \<open>close\<close>, with exit code
  \<open>c\<close>, comes before any expiry of the timer and any \<open>error\<close>:
  \<open>run_command\<close> returns, for \<open>c = 0\<close>, the accumulated standard output, or
  the fixed placeholder when that is empty; otherwise the failure prefix with the exit
  code, followed by the accumulated standard error if non-empty, else the standard output
  if non-empty, else the fixed placeholder.
\<close>

theorem close_result:
  "child_started cfg fs command wd \<and>
   (\<forall>e\<in>set es. \<not> is_terminal (effective_timeout targ) e) \<longrightarrow>
     result (run_command nt cfg fs homeDir env (es @ Close (Some c) # later) command wd targ) =
       Returns (if c = 0
                then (if stdout_of es = [] then ''Command executed successfully (no output)''
                      else stdout_of es)
                else ''Command failed with exit code '' @ number_to_string c @ '':'' @ newline
                     @ (if stderr_of es \<noteq> [] then stderr_of es
                        else if stdout_of es \<noteq> [] then stdout_of es
                        else ''No error output''))"
  by (simp add: run_command_started promise_result_def close_first_result
        success_message_def failure_message_def js_or_def render_code_def)

theorem close_result_witness:
  "child_started app_config app_fs ''make'' None \<and>
   \<not> is_terminal (effective_timeout (None :: int option)) (StdoutData ''building'') \<and>
   \<not> is_terminal (effective_timeout (None :: int option)) (StderrData ''boom'') \<and>
   result (run_command number_to_string app_config app_fs ''/home/u'' Map.empty
             ([StdoutData ''building'', StderrData ''boom''] @ Close (Some 7) # [])
             ''make'' None None) =
     Returns (''Command failed with exit code 7:'' @ newline @ ''boom'') \<and>
   result (run_command number_to_string app_config app_fs ''/home/u'' Map.empty
             ([StdoutData ''done''] @ Close (Some 0) # []) ''make'' None None) =
     Returns ''done'' \<and>
   result (run_command number_to_string app_config app_fs ''/home/u'' Map.empty
             ([] @ Close (Some 0) # []) ''make'' None None) =
     Returns ''Command executed successfully (no output)''"
  using app_started
    close_result [of app_config app_fs "''make''" None
      "[StdoutData ''building'', StderrData ''boom'']" None number_to_string "''/home/u''"
      Map.empty 7 "[]"]
    close_result [of app_config app_fs "''make''" None "[StdoutData ''done'']" None
      number_to_string "''/home/u''" Map.empty 0 "[]"]
    close_result [of app_config app_fs "''make''" None "[]" None
      number_to_string "''/home/u''" Map.empty 0 "[]"]
  by (simp add: render_simps)

text \<open>
  C4.  An omitted timeout is 30000 and a supplied one is taken as it is.  The timer is
  armed exactly when the effective timeout is positive.  When it is positive and the
  timer fires before any \<open>close\<close> or \<open>error\<close>, \<open>process.kill()\<close> has been
  called on the child and \<open>run_command\<close> returns the fixed notice with the
  configured duration as the runtime prints it, whatever output had been accumulated and
  whatever happens later.  When it is not positive there is no timer: without a
  \<open>close\<close> or \<open>error\<close> the call stays pending and the child is not killed.
\<close>

theorem timeout_behaviour:
  "(effective_timeout None :: 'n::{zero,ord,numeral}) = 30000 \<and>
   effective_timeout (Some (ms :: 'n)) = ms \<and>
   (timerPending (spawned_state (effective_timeout targ)) \<longleftrightarrow>
      0 < (effective_timeout targ :: 'n)) \<and>
   (timeoutId (spawned_state (effective_timeout targ)) \<longleftrightarrow>
      0 < effective_timeout targ) \<and>
   (child_started cfg fs command wd \<and> 0 < effective_timeout targ \<and>
    (\<forall>e\<in>set es. \<not> is_terminal (effective_timeout targ) e) \<longrightarrow>
      result (run_command nt cfg fs homeDir env (es @ TimerFired # later) command wd targ) =
        Returns (''Command timed out after '' @ nt (effective_timeout targ) @ ''ms'') \<and>
      child_killed (run_command nt cfg fs homeDir env (es @ TimerFired # later) command wd targ)) \<and>
   (child_started cfg fs command wd \<and> \<not> 0 < effective_timeout targ \<and>
    (\<forall>e\<in>set es. \<not> is_terminal (effective_timeout targ) e) \<longrightarrow>
      result (run_command nt cfg fs homeDir env (es @ [TimerFired]) command wd targ) = Pending \<and>
      \<not> child_killed (run_command nt cfg fs homeDir env (es @ [TimerFired]) command wd targ))"
proof (intro conjI impI)
  show "(effective_timeout None :: 'n) = 30000" and "effective_timeout (Some ms) = ms"
    by (simp_all add: effective_timeout_def)
  show "timerPending (spawned_state (effective_timeout targ)) \<longleftrightarrow> 0 < effective_timeout targ"
    and "timeoutId (spawned_state (effective_timeout targ)) \<longleftrightarrow> 0 < effective_timeout targ"
    by (simp_all add: spawned_state_def)
next
  assume a: "child_started cfg fs command wd \<and> 0 < effective_timeout targ \<and>
    (\<forall>e\<in>set es. \<not> is_terminal (effective_timeout targ) e)"
  then show "result (run_command nt cfg fs homeDir env (es @ TimerFired # later) command wd targ) =
        Returns (''Command timed out after '' @ nt (effective_timeout targ) @ ''ms'')"
    by (simp add: run_command_started promise_result_def timer_first_result(1)
          timeout_message_def)
  from a show "child_killed
      (run_command nt cfg fs homeDir env (es @ TimerFired # later) command wd targ)"
    by (simp add: run_command_started timer_first_result(2))
next
  assume a: "child_started cfg fs command wd \<and> \<not> 0 < effective_timeout targ \<and>
    (\<forall>e\<in>set es. \<not> is_terminal (effective_timeout targ) e)"
  then have q: "\<forall>e\<in>set (es @ [TimerFired]). \<not> is_terminal (effective_timeout targ) e"
    by simp
  from a show "result (run_command nt cfg fs homeDir env (es @ [TimerFired]) command wd targ)
      = Pending"
    by (simp add: run_command_started promise_result_def run_events_quiet [OF q]
          promise_value_def)
  from a show "\<not> child_killed
      (run_command nt cfg fs homeDir env (es @ [TimerFired]) command wd targ)"
    by (simp add: run_command_started run_events_quiet [OF q])
qed

theorem timeout_behaviour_witness:
  "child_started app_config app_fs ''make'' None \<and>
   (0::int) < effective_timeout (Some 250) \<and>
   \<not> is_terminal (effective_timeout (Some (250::int))) (StdoutData ''partial'') \<and>
   result (run_command number_to_string app_config app_fs ''/home/u'' Map.empty
             ([StdoutData ''partial''] @ TimerFired # [Close None]) ''make'' None (Some 250)) =
     Returns ''Command timed out after 250ms'' \<and>
   child_killed (run_command number_to_string app_config app_fs ''/home/u'' Map.empty
             ([StdoutData ''partial''] @ TimerFired # [Close None]) ''make'' None (Some 250)) \<and>
   result (run_command number_to_string app_config app_fs ''/home/u'' Map.empty
             ([] @ TimerFired # []) ''make'' None None) =
     Returns ''Command timed out after 30000ms'' \<and>
   \<not> (0::int) < effective_timeout (Some 0) \<and>
   result (run_command number_to_string app_config app_fs ''/home/u'' Map.empty
             ([StdoutData ''partial''] @ [TimerFired]) ''make'' None (Some 0)) = Pending \<and>
   \<not> child_killed (run_command number_to_string app_config app_fs ''/home/u'' Map.empty
             ([StdoutData ''partial''] @ [TimerFired]) ''make'' None (Some 0))"
  using app_started
    timeout_behaviour [where cfg = app_config and fs = app_fs and command = "''make''"
      and wd = None and targ = "Some (250::int)" and es = "[StdoutData ''partial'']"
      and nt = number_to_string and homeDir = "''/home/u''" and env = Map.empty
      and later = "[Close None]"]
    timeout_behaviour [where cfg = app_config and fs = app_fs and command = "''make''"
      and wd = None and targ = "None :: int option" and es = "[]"
      and nt = number_to_string and homeDir = "''/home/u''" and env = Map.empty
      and later = "[]"]
    timeout_behaviour [where cfg = app_config and fs = app_fs and command = "''make''"
      and wd = None and targ = "Some (0::int)" and es = "[StdoutData ''partial'']"
      and nt = number_to_string and homeDir = "''/home/u''" and env = Map.empty]
  by (simp add: effective_timeout_def render_simps)



section \<open>Properties of the path check, the environment and the file tools\<close>

text \<open>
  C1.  The check is a textual prefix test against \<open>baseDir\<close> with no separator
  after it.  With the base directory \<open>/srv/app\<close>, the candidate
  \<open>../app-data/secret.txt\<close> normalizes to \<open>/srv/app-data/secret.txt\<close>, which
  \<open>normalizePath\<close> returns although it is neither the root nor below it; the
  working directory \<open>../app-data\<close> passes the test of \<open>run_command\<close> in the
  same way.
\<close>

theorem normalizePath_accepts_sibling:
  "normalizePath app_config ''../app-data/secret.txt'' = Inr ''/srv/app-data/secret.txt'' \<and>
   \<not> spec_within_root (baseDir app_config) ''/srv/app-data/secret.txt'' \<and>
   command_cwd app_config ''../app-data'' = ''/srv/app-data'' \<and>
   startsWith (command_cwd app_config ''../app-data'') (baseDir app_config) \<and>
   \<not> spec_within_root (baseDir app_config) (command_cwd app_config ''../app-data'')"
  by (simp add: app_config_def path_simps spec_within_root_def)

text \<open>
  C5.  Two working directories that the claim says are refused with an error text and
  that \<open>run_command\<close> lets through.  The working directory \<open>notes.txt\<close> is a
  regular file, not a directory: it passes the prefix test and the existence test, the
  only two there are, \<open>spawn\<close> is called and throws, and the call ends with that
  exception instead of returning a text.  The working directory \<open>../app-data\<close>
  resolves to \<open>/srv/app-data\<close>, outside the root: it passes the prefix test, and
  the command runs there.
\<close>

theorem run_command_unchecked_cwd:
  "command_cwd app_config ''notes.txt'' = ''/srv/app/notes.txt'' \<and>
   \<not> spec_is_directory app_fs (command_cwd app_config ''notes.txt'') \<and>
   result (run_command number_to_string app_config app_fs ''/home/u'' Map.empty
             [Close (Some 0)] ''ls'' (Some ''notes.txt'') None) =
     Throws (Error ''spawn ENOTDIR'') \<and>
   command_cwd app_config ''../app-data'' = ''/srv/app-data'' \<and>
   \<not> spec_within_root (baseDir app_config) (command_cwd app_config ''../app-data'') \<and>
   map_option spawn_cwd
     (spawned (run_command number_to_string app_config app_fs ''/home/u'' Map.empty
                 [StdoutData ''secret.txt'', Close (Some 0)] ''ls'' (Some ''../app-data'') None))
     = Some ''/srv/app-data'' \<and>
   result (run_command number_to_string app_config app_fs ''/home/u'' Map.empty
             [StdoutData ''secret.txt'', Close (Some 0)] ''ls'' (Some ''../app-data'') None) =
     Returns ''secret.txt''"
  by (simp add: command_simps app_config_def app_fs_def path_simps exec_simps render_simps
        spec_is_directory_def spec_within_root_def)

text \<open>
  C6, as the claim states it, fails: a \<open>PATH\<close> that is present and empty is falsy,
  so it is replaced by the synthesized value.
\<close>

theorem getShellEnv_empty_PATH:
  "getShellEnv ''/home/u'' [''PATH'' \<mapsto> []] ''PATH'' =
     Some ''/usr/local/bin:/usr/bin:/bin:/usr/sbin:/sbin:/home/u/.local/bin:/home/u/bin:/home/u/.nvm/current/bin:/home/u/.bun/bin:/home/u/.deno/bin:/home/u/.cargo/bin''"
  by (simp add: getShellEnv_def falsy_def synthesized_PATH_def path_simps)

text \<open>
  C6, amended.  \<open>getShellEnv\<close> sets \<open>PATH\<close> to the synthesized value exactly
  when \<open>PATH\<close> is absent or empty; otherwise it returns the environment as it is.
  Every variable other than \<open>PATH\<close> is as in the caller's environment, none added
  and none removed.
\<close>

theorem getShellEnv_repairs_PATH:
  "(falsy (env ''PATH'') \<longrightarrow>
      getShellEnv homeDir env = env(''PATH'' \<mapsto> synthesized_PATH homeDir)) \<and>
   (\<not> falsy (env ''PATH'') \<longrightarrow> getShellEnv homeDir env = env) \<and>
   (\<forall>name. name \<noteq> ''PATH'' \<longrightarrow> getShellEnv homeDir env name = env name) \<and>
   (falsy (env ''PATH'') \<longleftrightarrow> env ''PATH'' = None \<or> env ''PATH'' = Some [])"
  by (auto simp add: getShellEnv_def falsy_def split: option.splits)

theorem getShellEnv_repairs_PATH_witness:
  "falsy (Map.empty ''PATH'') \<and>
   getShellEnv ''/home/u'' Map.empty = [''PATH'' \<mapsto> synthesized_PATH ''/home/u''] \<and>
   \<not> falsy ([''PATH'' \<mapsto> ''/usr/bin'', ''HOME'' \<mapsto> ''/home/u''] ''PATH'') \<and>
   getShellEnv ''/home/u'' [''PATH'' \<mapsto> ''/usr/bin'', ''HOME'' \<mapsto> ''/home/u'']
     = [''PATH'' \<mapsto> ''/usr/bin'', ''HOME'' \<mapsto> ''/home/u''] \<and>
   getShellEnv ''/home/u'' [''PATH'' \<mapsto> [], ''HOME'' \<mapsto> ''/home/u''] ''HOME''
     = Some ''/home/u''"
  using getShellEnv_repairs_PATH [of Map.empty "''/home/u''"]
    getShellEnv_repairs_PATH
      [of "[''PATH'' \<mapsto> ''/usr/bin'', ''HOME'' \<mapsto> ''/home/u'']" "''/home/u''"]
    getShellEnv_repairs_PATH
      [of "[''PATH'' \<mapsto> [], ''HOME'' \<mapsto> ''/home/u'']" "''/home/u''"]
  by (simp add: falsy_def)

text \<open>
  C9.  In the environment \<open>get_env\<close> reads, \<open>PATH\<close> always has a value, and
  that value is what \<open>get_env\<close> returns for the name \<open>PATH\<close>.
\<close>

theorem get_env_PATH_defined:
  "\<exists>v. getShellEnv homeDir env ''PATH'' = Some v \<and> get_env homeDir env ''PATH'' = v"
  by (auto simp add: get_env_def getShellEnv_def falsy_def split: option.splits)

text \<open>
  C7.  When the confined target is not in the file system, \<open>edit_file\<close> returns
  the not-found text and leaves the file system as it was.  When the target is a regular
  file, \<open>edit_file\<close> returns the success text followed by the patch computed from
  the old content, as read from the file, and the new content, and the file holds the
  encoded new content afterwards.
\<close>

theorem edit_file_behaviour:
  "(normalizePath cfg p = Inr np \<and> fs np = None \<longrightarrow>
      edit_file enc createPatch cfg fs p c =
        (''Error: File '' @ quoted p @ '' does not exist'', fs)) \<and>
   (normalizePath cfg p = Inr np \<and> fs np = Some (File old) \<longrightarrow>
      edit_file enc createPatch cfg fs p c =
        (''File '' @ quoted p @ '' has been edited successfully.'' @ newline @ newline
           @ ''Changes:'' @ newline @ createPatch p (from_utf8 enc old) c ''Old'' ''New'',
         fs(np \<mapsto> File (to_utf8 enc c))))"
  by (simp add: edit_file_def existsSync_def readFileSync_def writeFileSync_def
        edited_message_def Let_def)

theorem edit_file_behaviour_witness:
  "normalizePath app_config ''gone.txt'' = Inr ''/srv/app/gone.txt'' \<and>
   app_fs ''/srv/app/gone.txt'' = None \<and>
   edit_file seven_bit plain_patch app_config app_fs ''gone.txt'' ''forget'' =
     (''Error: File '' @ quoted ''gone.txt'' @ '' does not exist'', app_fs) \<and>
   normalizePath app_config ''notes.txt'' = Inr ''/srv/app/notes.txt'' \<and>
   app_fs ''/srv/app/notes.txt'' = Some (File ''remember'') \<and>
   edit_file seven_bit plain_patch app_config app_fs ''notes.txt'' ''forget'' =
     (''File '' @ quoted ''notes.txt'' @ '' has been edited successfully.'' @ newline @ newline
        @ ''Changes:'' @ newline
        @ ''--- notes.txt Old'' @ newline @ ''-remember'' @ newline
        @ ''+++ notes.txt New'' @ newline @ ''+forget'',
      app_fs(''/srv/app/notes.txt'' \<mapsto> File ''forget''))"
proof -
  have a: "normalizePath app_config ''gone.txt'' = Inr ''/srv/app/gone.txt''"
    and b: "normalizePath app_config ''notes.txt'' = Inr ''/srv/app/notes.txt''"
    by (simp_all add: app_config_def path_simps)
  have c: "app_fs ''/srv/app/gone.txt'' = None"
    and d: "app_fs ''/srv/app/notes.txt'' = Some (File ''remember'')"
    by (simp_all add: app_fs_def)
  show ?thesis
    using a b c d
      edit_file_behaviour [where cfg = app_config and p = "''gone.txt''"
        and np = "''/srv/app/gone.txt''" and fs = app_fs and createPatch = plain_patch
        and c = "''forget''" and enc = seven_bit]
      edit_file_behaviour [where cfg = app_config and p = "''notes.txt''"
        and np = "''/srv/app/notes.txt''" and fs = app_fs and createPatch = plain_patch
        and c = "''forget''" and old = "''remember''" and enc = seven_bit]
    by (simp add: plain_patch_def seven_bit_def)
qed







end
